theory Spec2Isabelle
  imports Main
begin

section \<open>Data frames\<close>

text \<open>
  A cell of a pandas data frame. \<open>Null\<close> stands for NaN, None, NaT and pd.NA. The numeric
  and the date-time representations are type parameters: floating point and calendar
  arithmetic are not part of this development, only the control flow around them.
\<close>

datatype ('n, 'd) cell = Null | IntV int | NumV 'n | StrV string | DateV 'd

type_synonym ('n, 'd) row = "(string \<times> ('n, 'd) cell) list"

record ('n, 'd) frame =
  columns :: "string list"
  rows :: "('n, 'd) row list"

text \<open>The exceptions of the scripts that \<open>except Exception\<close> catches.\<close>

datatype error = KeyError | ValueError | TypeError

text \<open>
  The element-wise behaviour of the pandas conversions, taken as parameters:
  what \<open>pd.to_datetime\<close>, \<open>pd.to_numeric\<close> and \<open>astype(Int64)\<close> make of one
  non-null value (\<open>None\<close> when the value cannot be converted) and the text
  \<open>astype(str)\<close> gives for a value that is neither a string nor null.
\<close>

record ('n, 'd) pandas =
  parse_datetime :: "('n, 'd) cell \<Rightarrow> 'd option"
  parse_numeric :: "('n, 'd) cell \<Rightarrow> 'n option"
  cast_int64 :: "('n, 'd) cell \<Rightarrow> int option"
  astype_str :: "('n, 'd) cell \<Rightarrow> string"

text \<open>\<open>str.lower\<close> on ASCII text.\<close>

definition lower_char :: "char \<Rightarrow> char" where
  "lower_char c =
     (let n = (of_char c :: nat) in if 65 \<le> n \<and> n \<le> 90 then char_of (n + 32) else c)"

definition lower :: "string \<Rightarrow> string" where
  "lower s = map lower_char s"

text \<open>A row read from a short CSV line has its missing fields filled with NaN.\<close>

definition cell_at :: "('n, 'd) row \<Rightarrow> string \<Rightarrow> ('n, 'd) cell" where
  "cell_at r c = (case map_of r c of Some v \<Rightarrow> v | None \<Rightarrow> Null)"

fun set_cell :: "string \<Rightarrow> ('n, 'd) cell \<Rightarrow> ('n, 'd) row \<Rightarrow> ('n, 'd) row" where
  "set_cell c v [] = [(c, v)]"
| "set_cell c v ((k, x) # r) = (if k = c then (c, v) # r else (k, x) # set_cell c v r)"

text \<open>\<open>df[c]\<close>: the column as a series; KeyError when there is no such column.\<close>

definition getitem :: "('n, 'd) frame \<Rightarrow> string \<Rightarrow> error + ('n, 'd) cell list" where
  "getitem df c =
     (if c \<in> set (columns df) then Inr (map (\<lambda>r. cell_at r c) (rows df)) else Inl KeyError)"

text \<open>\<open>df[cols]\<close> with a list of names: the sub-frame of these columns, in this order.\<close>

definition getitems :: "('n, 'd) frame \<Rightarrow> string list \<Rightarrow> error + ('n, 'd) frame" where
  "getitems df cols =
     (if set cols \<subseteq> set (columns df)
      then Inr \<lparr>columns = cols, rows = map (\<lambda>r. map (\<lambda>c. (c, cell_at r c)) cols) (rows df)\<rparr>
      else Inl KeyError)"

text \<open>\<open>df[c] = series\<close>: the series has one value per row at every call site.\<close>

definition setitem :: "('n, 'd) frame \<Rightarrow> string \<Rightarrow> ('n, 'd) cell list \<Rightarrow> ('n, 'd) frame" where
  "setitem df c vs =
     \<lparr>columns = (if c \<in> set (columns df) then columns df else columns df @ [c]),
      rows = map (\<lambda>(r, v). set_cell c v r) (zip (rows df) vs)\<rparr>"

section \<open>fetch\_data.py\<close>

definition COLUMNS_TO_KEEP :: "string list" where
  "COLUMNS_TO_KEEP =
    [''pitch_type'', ''game_date'', ''release_speed'', ''release_pos_x'', ''release_pos_z'',
     ''player_name'', ''batter'', ''pitcher'', ''events'', ''description'', ''zone'',
     ''des'', ''game_type'', ''stand'', ''p_throws'', ''home_team'', ''away_team'',
     ''type'', ''hit_location'', ''bb_type'', ''balls'', ''strikes'', ''game_year'',
     ''pfx_x'', ''pfx_z'', ''plate_x'', ''plate_z'', ''on_3b'', ''on_2b'', ''on_1b'',
     ''outs_when_up'', ''inning'', ''inning_topbot'', ''hc_x'', ''hc_y'',
     ''sv_id'', ''vx0'', ''vy0'', ''vz0'', ''ax'', ''ay'', ''az'',
     ''sz_top'', ''sz_bot'', ''hit_distance_sc'', ''launch_speed'', ''launch_angle'',
     ''effective_speed'', ''release_spin_rate'', ''release_extension'', ''game_pk'',
     ''fielder_2'', ''fielder_3'', ''fielder_4'', ''fielder_5'',
     ''fielder_6'', ''fielder_7'', ''fielder_8'', ''fielder_9'',
     ''estimated_ba_using_speedangle'', ''estimated_woba_using_speedangle'',
     ''woba_value'', ''woba_denom'', ''babip_value'', ''iso_value'',
     ''launch_speed_angle'', ''at_bat_number'', ''pitch_number'', ''pitch_name'',
     ''home_score'', ''away_score'', ''bat_score'', ''fld_score'', ''post_away_score'',
     ''post_home_score'', ''post_bat_score'', ''post_fld_score'']"

text \<open>
  \<open>clean_and_select_columns\<close> returns the warnings it logs (each the list of the
  requested columns that were not found) and the selected frame, or the exception of
  the selection.
\<close>

definition clean_and_select_columns ::
  "('n, 'd) frame \<Rightarrow> string list \<Rightarrow> string list list \<times> (error + ('n, 'd) frame)" where
  "clean_and_select_columns df columns_to_keep =
     (let existing_columns = filter (\<lambda>col. col \<in> set (columns df)) columns_to_keep;
          missing_columns = filter (\<lambda>col. col \<notin> set (columns df)) columns_to_keep
      in (if missing_columns \<noteq> [] then [missing_columns] else [],
          getitems df existing_columns))"

section \<open>loading\_RDS.py: cleaning\<close>

definition lower_columns :: "('n, 'd) frame \<Rightarrow> ('n, 'd) frame" where
  "lower_columns df =
     \<lparr>columns = map lower (columns df),
      rows = map (map (\<lambda>(k, v). (lower k, v))) (rows df)\<rparr>"

text \<open>
  \<open>pd.to_datetime\<close> with its default \<open>errors='raise'\<close>: a null stays null (NaT), any
  other value is parsed, and one value that cannot be parsed raises for the whole column.
\<close>

definition datetime1 :: "('n, 'd) pandas \<Rightarrow> ('n, 'd) cell \<Rightarrow> ('n, 'd) cell option" where
  "datetime1 lib v =
     (case v of Null \<Rightarrow> Some Null
      | _ \<Rightarrow> (case parse_datetime lib v of Some d \<Rightarrow> Some (DateV d) | None \<Rightarrow> None))"

definition to_datetime :: "('n, 'd) pandas \<Rightarrow> ('n, 'd) cell list \<Rightarrow> error + ('n, 'd) cell list" where
  "to_datetime lib col =
     (case those (map (datetime1 lib) col) of Some vs \<Rightarrow> Inr vs | None \<Rightarrow> Inl ValueError)"

text \<open>\<open>pd.to_numeric\<close> with its \<open>errors\<close> argument.\<close>

datatype errors_mode = Raise_errors | Coerce

definition numeric1 ::
  "('n, 'd) pandas \<Rightarrow> errors_mode \<Rightarrow> ('n, 'd) cell \<Rightarrow> ('n, 'd) cell option" where
  "numeric1 lib errors v =
     (case v of Null \<Rightarrow> Some Null
      | _ \<Rightarrow> (case parse_numeric lib v of
                Some x \<Rightarrow> Some (NumV x)
              | None \<Rightarrow> (case errors of Coerce \<Rightarrow> Some Null | Raise_errors \<Rightarrow> None)))"

definition to_numeric ::
  "('n, 'd) pandas \<Rightarrow> errors_mode \<Rightarrow> ('n, 'd) cell list \<Rightarrow> error + ('n, 'd) cell list" where
  "to_numeric lib errors col =
     (case those (map (numeric1 lib errors) col) of Some vs \<Rightarrow> Inr vs | None \<Rightarrow> Inl ValueError)"

text \<open>\<open>astype(pd.Int64Dtype())\<close>: nulls are kept, a value that is no integer raises.\<close>

definition int64_1 :: "('n, 'd) pandas \<Rightarrow> ('n, 'd) cell \<Rightarrow> ('n, 'd) cell option" where
  "int64_1 lib v =
     (case v of Null \<Rightarrow> Some Null
      | IntV i \<Rightarrow> Some (IntV i)
      | _ \<Rightarrow> (case cast_int64 lib v of Some i \<Rightarrow> Some (IntV i) | None \<Rightarrow> None))"

definition astype_Int64 :: "('n, 'd) pandas \<Rightarrow> ('n, 'd) cell list \<Rightarrow> error + ('n, 'd) cell list" where
  "astype_Int64 lib col =
     (case those (map (int64_1 lib) col) of Some vs \<Rightarrow> Inr vs | None \<Rightarrow> Inl TypeError)"

definition numeric_cols :: "string list" where
  "numeric_cols =
    [''release_speed'', ''release_pos_x'', ''release_pos_z'', ''pfx_x'', ''pfx_z'',
     ''plate_x'', ''plate_z'', ''effective_speed'', ''release_spin_rate'',
     ''release_extension'', ''spin_axis'', ''hit_distance_sc'', ''launch_speed'',
     ''launch_angle'', ''estimated_ba_using_speedangle'', ''woba_value'',
     ''estimated_woba_using_speedangle'', ''hc_x'', ''hc_y'', ''sz_top'', ''sz_bot'']"

definition int_cols :: "string list" where
  "int_cols =
    [''balls'', ''strikes'', ''zone'', ''outs_when_up'', ''inning'',
     ''at_bat_number'', ''pitch_number'', ''game_pk'', ''batter'', ''pitcher'',
     ''on_1b'', ''on_2b'', ''on_3b'', ''hit_location'', ''woba_denom'',
     ''babip_value'', ''iso_value'', ''launch_speed_angle'',
     ''fielder_2'', ''fielder_3'', ''fielder_4'', ''fielder_5'',
     ''fielder_6'', ''fielder_7'', ''fielder_8'', ''fielder_9'',
     ''home_score'', ''away_score'', ''bat_score'', ''fld_score'',
     ''post_away_score'', ''post_home_score'', ''post_bat_score'', ''post_fld_score'']"

text \<open>\<open>if col in df.columns: df[col] = f(df[col])\<close>\<close>

definition convert_column ::
  "(('n, 'd) cell list \<Rightarrow> error + ('n, 'd) cell list) \<Rightarrow> ('n, 'd) frame \<Rightarrow> string
     \<Rightarrow> error + ('n, 'd) frame" where
  "convert_column f df col =
     (if col \<in> set (columns df)
      then (case getitem df col of
              Inl e \<Rightarrow> Inl e
            | Inr series \<Rightarrow> (case f series of Inl e \<Rightarrow> Inl e | Inr vs \<Rightarrow> Inr (setitem df col vs)))
      else Inr df)"

text \<open>\<open>for col in cols: if col in df.columns: df[col] = f(df[col])\<close>\<close>

fun convert_columns ::
  "(('n, 'd) cell list \<Rightarrow> error + ('n, 'd) cell list) \<Rightarrow> ('n, 'd) frame \<Rightarrow> string list
     \<Rightarrow> error + ('n, 'd) frame" where
  "convert_columns f df [] = Inr df"
| "convert_columns f df (col # cols) =
     (case convert_column f df col of Inl e \<Rightarrow> Inl e | Inr df' \<Rightarrow> convert_columns f df' cols)"

text \<open>Lines 82 to 112: the cleaning of the frame that \<open>read_csv\<close> returned.\<close>

definition coerce_numeric :: "('n, 'd) pandas \<Rightarrow> ('n, 'd) frame \<Rightarrow> error + ('n, 'd) frame" where
  "coerce_numeric lib df = convert_columns (to_numeric lib Coerce) df numeric_cols"

definition normalize :: "('n, 'd) pandas \<Rightarrow> ('n, 'd) frame \<Rightarrow> error + ('n, 'd) frame" where
  "normalize lib df0 =
     (case convert_column (to_datetime lib) (lower_columns df0) ''game_date'' of
        Inl e \<Rightarrow> Inl e
      | Inr df1 \<Rightarrow>
          (case coerce_numeric lib df1 of
             Inl e \<Rightarrow> Inl e
           | Inr df2 \<Rightarrow> convert_columns (astype_Int64 lib) df2 int_cols))"

section \<open>loading\_RDS.py: validation\<close>

text \<open>What the script prints, with the numbers it prints.\<close>

datatype event =
    NullPkError nat | NullPkPassed
  | DupPkError nat | DupPkPassed
  | DescWarning nat | DescPassed "nat option"
  | ProcessingError error
  | NoCsvFound
  | ConnectionOk | ConnectionError
  | Loaded nat | IntegrityErrorReported | LoadError
  | EngineClosed | Finished

text \<open>
  How a block of the script ends: it falls through, it calls \<open>sys.exit\<close> (SystemExit is
  no \<open>Exception\<close>, so no \<open>except Exception\<close> clause catches it), or it raises.
\<close>

datatype control = Proceed | SysExit nat | Raised error

definition pk_cols :: "string list" where
  "pk_cols = [''game_pk'', ''at_bat_number'', ''pitch_number'']"

text \<open>\<open>.isnull().any(axis=1)\<close> and the \<open>.sum()\<close> of a boolean series.\<close>

definition isnull_any :: "('n, 'd) frame \<Rightarrow> bool list" where
  "isnull_any df = map (\<lambda>r. list_ex (\<lambda>(k, v). v = Null) r) (rows df)"

definition sum_mask :: "bool list \<Rightarrow> nat" where
  "sum_mask m = length (filter (\<lambda>b. b) m)"

text \<open>
  \<open>df.duplicated(subset=cols, keep=False)\<close>: a row is marked when its values in the
  subset occur in more than one row.
\<close>

definition key_of :: "string list \<Rightarrow> ('n, 'd) row \<Rightarrow> ('n, 'd) cell list" where
  "key_of cols r = map (cell_at r) cols"

definition duplicated_keep_False :: "('n, 'd) frame \<Rightarrow> string list \<Rightarrow> bool list" where
  "duplicated_keep_False df cols =
     (let keys = map (key_of cols) (rows df) in map (\<lambda>k. 1 < count_list keys k) keys)"

text \<open>\<open>.astype(str).str.len().max()\<close>: NaN becomes the text nan; the maximum of no value
  is NaN, here \<open>None\<close>, and every comparison with it is false.\<close>

definition str_of :: "('n, 'd) pandas \<Rightarrow> ('n, 'd) cell \<Rightarrow> string" where
  "str_of lib v = (case v of StrV s \<Rightarrow> s | Null \<Rightarrow> ''nan'' | _ \<Rightarrow> astype_str lib v)"

definition max_len :: "nat list \<Rightarrow> nat option" where
  "max_len ns = (if ns = [] then None else Some (Max (set ns)))"

definition db_desc_limit :: nat where
  "db_desc_limit = 100"

text \<open>Lines 114 to 158. The sample rows that the script prints are left out.\<close>

definition validate :: "('n, 'd) pandas \<Rightarrow> ('n, 'd) frame \<Rightarrow> event list \<times> control" where
  "validate lib df =
     (case getitems df pk_cols of
        Inl e \<Rightarrow> ([], Raised e)
      | Inr pk_frame \<Rightarrow>
          (let num_null_pk_rows = sum_mask (isnull_any pk_frame) in
           if 0 < num_null_pk_rows then ([NullPkError num_null_pk_rows], SysExit 1)
           else
             (let num_duplicates = sum_mask (duplicated_keep_False df pk_cols) in
              if 0 < num_duplicates
              then ([NullPkPassed, DupPkError num_duplicates], SysExit 1)
              else
                (case getitem df ''description'' of
                   Inl e \<Rightarrow> ([NullPkPassed, DupPkPassed], Raised e)
                 | Inr series \<Rightarrow>
                     (let max_desc_len = max_len (map (\<lambda>v. length (str_of lib v)) series) in
                      case max_desc_len of
                        None \<Rightarrow> ([NullPkPassed, DupPkPassed, DescPassed None], Proceed)
                      | Some m \<Rightarrow>
                          if db_desc_limit < m
                          then ([NullPkPassed, DupPkPassed, DescWarning m], Proceed)
                          else ([NullPkPassed, DupPkPassed, DescPassed (Some m)], Proceed))))))"

text \<open>
  Lines 74 to 168: the \<open>try\<close> block around cleaning and validation. An exception is
  reported and the process exits with status 1; a \<open>sys.exit\<close> of the validation passes
  through.
\<close>

definition read_and_check ::
  "('n, 'd) pandas \<Rightarrow> ('n, 'd) frame \<Rightarrow> event list \<times> (nat + ('n, 'd) frame)" where
  "read_and_check lib df0 =
     (case normalize lib df0 of
        Inl e \<Rightarrow> ([ProcessingError e], Inl 1)
      | Inr df \<Rightarrow>
          (case validate lib df of
             (out, Proceed) \<Rightarrow> (out, Inr df)
           | (out, SysExit n) \<Rightarrow> (out, Inl n)
           | (out, Raised e) \<Rightarrow> (out @ [ProcessingError e], Inl 1)))"

section \<open>loading\_RDS.py: the store\<close>

text \<open>
  Modelled from the spec: the table \<open>statcast_data\<close> is created outside the repository.
  Its primary key is (game\_pk, at\_bat\_number, pitch\_number); every other constraint of
  the table (column types, the bounded description) is the parameter \<open>accepts\<close>.
  \<open>to_sql\<close> with \<open>if_exists='append'\<close> sends all chunks in one transaction: the rows are
  inserted one after the other, the first row that the table refuses raises, and the
  transaction is rolled back.
\<close>

datatype db_error = IntegrityError | DataError

fun insert_rows ::
  "(('n, 'd) row \<Rightarrow> bool) \<Rightarrow> ('n, 'd) row list \<Rightarrow> ('n, 'd) row list
     \<Rightarrow> db_error + ('n, 'd) row list" where
  "insert_rows accepts table [] = Inr table"
| "insert_rows accepts table (r # rs) =
     (if \<not> accepts r then Inl DataError
      else if Null \<in> set (key_of pk_cols r) then Inl IntegrityError
      else if key_of pk_cols r \<in> set (map (key_of pk_cols) table) then Inl IntegrityError
      else insert_rows accepts (table @ [r]) rs)"

definition to_sql ::
  "(('n, 'd) row \<Rightarrow> bool) \<Rightarrow> ('n, 'd) row list \<Rightarrow> ('n, 'd) frame
     \<Rightarrow> (db_error + unit) \<times> ('n, 'd) row list" where
  "to_sql accepts table df =
     (case insert_rows accepts table (rows df) of
        Inl e \<Rightarrow> (Inl e, table)
      | Inr table' \<Rightarrow> (Inr (), table'))"

text \<open>
  The engine and its connection pool: the connections a caller holds, the idle
  connections the pool keeps open, and whether \<open>dispose\<close> was called.
  \<open>create_engine\<close> opens no connection. \<open>engine.connect()\<close> hands out an idle
  connection of the pool or opens a new one; closing a connection (the end of a
  \<open>with\<close> block) returns it to the pool, where it stays open; \<open>dispose\<close> closes the
  idle connections of the pool.
\<close>

record engine =
  checked_out :: nat
  pooled :: nat
  disposed :: bool

definition create_engine :: engine where
  "create_engine = \<lparr>checked_out = 0, pooled = 0, disposed = False\<rparr>"

definition engine_connect :: "engine \<Rightarrow> engine" where
  "engine_connect g = g\<lparr>checked_out := checked_out g + 1, pooled := pooled g - 1\<rparr>"

definition connection_close :: "engine \<Rightarrow> engine" where
  "connection_close g = g\<lparr>checked_out := checked_out g - 1, pooled := pooled g + 1\<rparr>"

definition dispose :: "engine \<Rightarrow> engine" where
  "dispose g = g\<lparr>pooled := 0, disposed := True\<rparr>"

text \<open>
  The surroundings of a run: whether \<open>create_engine\<close> accepts the URL, whether the
  database can be reached, and what the table accepts.
\<close>

record ('n, 'd) env =
  url_ok :: bool
  connect_ok :: bool
  accepts :: "('n, 'd) row \<Rightarrow> bool"

record ('n, 'd) outcome =
  printed :: "event list"
  exit_code :: nat
  table :: "('n, 'd) row list"
  engine_state :: "engine option"

text \<open>
  Lines 170 to 182. A failure of \<open>create_engine\<close> leaves no engine; a failure of
  \<open>engine.connect()\<close> leaves the engine without any connection. Either way the
  process exits with status 1.
\<close>

definition connect :: "('n, 'd) env \<Rightarrow> event list \<times> (engine option + engine)" where
  "connect e =
     (if \<not> url_ok e then ([ConnectionError], Inl None)
      else if \<not> connect_ok e then ([ConnectionError], Inl (Some create_engine))
      else ([ConnectionOk], Inr (connection_close (engine_connect create_engine))))"

text \<open>
  Lines 184 to 237: the load with its handlers and its \<open>finally\<close>. \<open>to_sql\<close> takes a
  connection of the engine and gives it back. After an IntegrityError the script goes
  on to its last line; after any other exception it calls \<open>sys.exit(1)\<close>, and the
  \<open>finally\<close> clause runs on the way out.
\<close>

definition load ::
  "('n, 'd) env \<Rightarrow> engine \<Rightarrow> ('n, 'd) row list \<Rightarrow> ('n, 'd) frame \<Rightarrow> ('n, 'd) outcome" where
  "load e g tbl df =
     (let g' = connection_close (engine_connect g) in
      case to_sql (accepts e) tbl df of
        (Inr u, tbl') \<Rightarrow>
          \<lparr>printed = [Loaded (length (rows df)), EngineClosed, Finished], exit_code = 0,
           table = tbl', engine_state = Some (dispose g')\<rparr>
      | (Inl IntegrityError, tbl') \<Rightarrow>
          \<lparr>printed = [IntegrityErrorReported, EngineClosed, Finished], exit_code = 0,
           table = tbl', engine_state = Some (dispose g')\<rparr>
      | (Inl DataError, tbl') \<Rightarrow>
          \<lparr>printed = [LoadError, EngineClosed], exit_code = 1,
           table = tbl', engine_state = Some (dispose g')\<rparr>)"

text \<open>
  What the run finds on disk: no CSV file, a file on which \<open>read_csv\<close> raises, or a
  file that \<open>read_csv\<close> turns into a frame. The configuration block at the top of the
  script (credentials, paths) is not part of the model.
\<close>

datatype ('n, 'd) csv_file = NoCsvFile | Unreadable error | Readable "('n, 'd) frame"

text \<open>The main block, lines 60 to 237.\<close>

definition main ::
  "('n, 'd) env \<Rightarrow> ('n, 'd) pandas \<Rightarrow> ('n, 'd) csv_file \<Rightarrow> ('n, 'd) row list
     \<Rightarrow> ('n, 'd) outcome" where
  "main e lib csv tbl =
     (case csv of
        NoCsvFile \<Rightarrow>
          \<lparr>printed = [NoCsvFound], exit_code = 1, table = tbl, engine_state = None\<rparr>
      | Unreadable err \<Rightarrow>
          \<lparr>printed = [ProcessingError err], exit_code = 1, table = tbl, engine_state = None\<rparr>
      | Readable df0 \<Rightarrow>
          (case read_and_check lib df0 of
             (out, Inl n) \<Rightarrow> \<lparr>printed = out, exit_code = n, table = tbl, engine_state = None\<rparr>
           | (out, Inr df) \<Rightarrow>
               (case connect e of
                  (out', Inl g) \<Rightarrow>
                    \<lparr>printed = out @ out', exit_code = 1, table = tbl, engine_state = g\<rparr>
                | (out', Inr g) \<Rightarrow>
                    (let res = load e g tbl df
                     in res\<lparr>printed := out @ out' @ printed res\<rparr>))))"

section \<open>Notions of the specification\<close>

text \<open>The rows that have a null in at least one primary-key column.\<close>

definition null_pk_rows :: "('n, 'd) frame \<Rightarrow> ('n, 'd) row list" where
  "null_pk_rows df = filter (\<lambda>r. \<exists>c\<in>set pk_cols. cell_at r c = Null) (rows df)"

text \<open>
  Row \<open>i\<close> takes part in a duplicate group when another row has the same key; the
  positions of all such rows.
\<close>

definition shares_key :: "'a list \<Rightarrow> nat \<Rightarrow> bool" where
  "shares_key keys i = list_ex (\<lambda>j. j \<noteq> i \<and> keys ! j = keys ! i) [0..<length keys]"

definition duplicate_group_rows :: "('n, 'd) frame \<Rightarrow> nat list" where
  "duplicate_group_rows df =
     (let keys = map (key_of pk_cols) (rows df) in filter (shares_key keys) [0..<length keys])"


section \<open>Example inputs\<close>

definition lib0 :: "(int, string) pandas" where
  "lib0 =
     \<lparr>parse_datetime =
        (\<lambda>v. case v of StrV s \<Rightarrow> if length s = 10 then Some s else None | _ \<Rightarrow> None),
      parse_numeric = (\<lambda>v. case v of IntV i \<Rightarrow> Some i | _ \<Rightarrow> None),
      cast_int64 = (\<lambda>v. None),
      astype_str = (\<lambda>v. ''?'')\<rparr>"

definition pitch_cols :: "string list" where
  "pitch_cols = [''game_pk'', ''at_bat_number'', ''pitch_number'', ''description'']"

definition pitch :: "(int, string) cell \<Rightarrow> int \<Rightarrow> int \<Rightarrow> string \<Rightarrow> (int, string) row" where
  "pitch g a p d =
     [(''game_pk'', g), (''at_bat_number'', IntV a), (''pitch_number'', IntV p),
      (''description'', StrV d)]"

definition pitches :: "(int, string) row list \<Rightarrow> (int, string) frame" where
  "pitches rs = \<lparr>columns = pitch_cols, rows = rs\<rparr>"

definition env0 :: "bool \<Rightarrow> (int, string) env" where
  "env0 reachable = \<lparr>url_ok = True, connect_ok = reachable, accepts = (\<lambda>r. True)\<rparr>"

definition two_pitches :: "(int, string) frame" where
  "two_pitches = pitches [pitch (IntV 1) 1 1 ''ball'', pitch (IntV 1) 1 2 ''foul'']"

definition keys_only :: "(int, string) frame" where
  "keys_only =
     \<lparr>columns = pk_cols,
      rows = [[(''game_pk'', IntV 1), (''at_bat_number'', IntV 1), (''pitch_number'', IntV 1)]]\<rparr>"

definition dated :: "(int, string) frame" where
  "dated =
     \<lparr>columns = [''Game_Date'', ''game_pk''],
      rows = [[(''Game_Date'', StrV ''2023-04-01''), (''game_pk'', IntV 1)],
              [(''Game_Date'', StrV ''yesterday''), (''game_pk'', IntV 2)]]\<rparr>"


definition source :: "(int, string) frame" where
  "source =
     \<lparr>columns = [''description'', ''spin_dir'', ''game_pk''],
      rows = [[(''description'', StrV ''ball''), (''spin_dir'', IntV 3), (''game_pk'', IntV 7)]]\<rparr>"

definition statcast_source :: "(int, string) frame" where
  "statcast_source =
     \<lparr>columns = [''spin_dir'', ''pitch_number'', ''at_bat_number'', ''game_pk''],
      rows = [[(''spin_dir'', IntV 3), (''pitch_number'', IntV 2), (''at_bat_number'', IntV 4),
               (''game_pk'', IntV 7)]]\<rparr>"

definition selected :: "(int, string) frame" where
  "selected =
     \<lparr>columns = [''game_pk'', ''at_bat_number'', ''pitch_number''],
      rows = [[(''game_pk'', IntV 7), (''at_bat_number'', IntV 4), (''pitch_number'', IntV 2)]]\<rparr>"

lemmas example_defs =
  pitches_def pitch_def pitch_cols_def pk_cols_def lib0_def cell_at_def key_of_def
  null_pk_rows_def duplicate_group_rows_def shares_key_def


section \<open>Validation\<close>

lemma getitems_pk:
  "set pk_cols \<subseteq> set (columns df) \<Longrightarrow>
   getitems df pk_cols =
     Inr \<lparr>columns = pk_cols, rows = map (\<lambda>r. map (\<lambda>c. (c, cell_at r c)) pk_cols) (rows df)\<rparr>"
  by (simp add: getitems_def)

lemma sum_mask_map: "sum_mask (map P xs) = length (filter P xs)"
  by (induction xs) (simp_all add: sum_mask_def)

lemma null_count:
  "sum_mask (isnull_any
      \<lparr>columns = pk_cols, rows = map (\<lambda>r. map (\<lambda>c. (c, cell_at r c)) pk_cols) (rows df)\<rparr>)
   = length (null_pk_rows df)"
  by (simp add: isnull_any_def sum_mask_map null_pk_rows_def filter_map o_def pk_cols_def
      list_ex_iff)

lemma count_gt1: "i < length xs \<Longrightarrow> (1 < count_list xs (xs ! i)) = shares_key xs i"
proof -
  assume i: "i < length xs"
  let ?S = "{j. j < length xs \<and> xs ! j = xs ! i}"
  have c: "count_list xs (xs ! i) = card ?S"
    by (simp add: count_list_eq_length_filter length_filter_conv_card eq_commute)
  have fin: "finite ?S" by simp
  show ?thesis
  proof
    assume "1 < count_list xs (xs ! i)"
    then have "1 < card ?S" using c by simp
    then have "\<exists>j\<in>?S. j \<noteq> i"
      by (metis (no_types, lifting) One_nat_def card_le_Suc0_iff_eq fin leD)
    then show "shares_key xs i" by (auto simp: shares_key_def list_ex_iff)
  next
    assume "shares_key xs i"
    then obtain j where j: "j < length xs" "j \<noteq> i" "xs ! j = xs ! i"
      by (auto simp: shares_key_def list_ex_iff)
    then have "{i, j} \<subseteq> ?S" using i by simp
    then have "card {i, j} \<le> card ?S" using fin card_mono by blast
    then show "1 < count_list xs (xs ! i)" using c j by simp
  qed
qed

lemma filter_shares:
  "filter (\<lambda>i. 1 < count_list ks (ks ! i)) [0..<length ks] = filter (shares_key ks) [0..<length ks]"
  by (rule filter_cong) (simp_all only: count_gt1 set_upt atLeastLessThan_iff)

lemma dup_mask_count:
  "sum_mask (map (\<lambda>k. 1 < count_list ks k) ks) = length (filter (shares_key ks) [0..<length ks])"
proof -
  have "sum_mask (map (\<lambda>k. 1 < count_list ks k) ks) = length (filter (\<lambda>k. 1 < count_list ks k) ks)"
    by (rule sum_mask_map)
  also have "\<dots> = length (filter (\<lambda>k. 1 < count_list ks k) (map (\<lambda>i. ks ! i) [0..<length ks]))"
    by (simp only: map_nth)
  also have "\<dots> = length (filter (\<lambda>i. 1 < count_list ks (ks ! i)) [0..<length ks])"
    by (simp only: filter_map length_map o_def)
  finally show ?thesis by (simp only: filter_shares)
qed

lemma dup_count:
  "sum_mask (duplicated_keep_False df pk_cols) = length (duplicate_group_rows df)"
  by (simp only: duplicated_keep_False_def duplicate_group_rows_def Let_def dup_mask_count)

text \<open>The validation of a frame that has the three key columns, check by check.\<close>

lemma validate_pk:
  assumes "set pk_cols \<subseteq> set (columns df)"
  shows "validate lib df =
     (if 0 < length (null_pk_rows df) then ([NullPkError (length (null_pk_rows df))], SysExit 1)
      else if 0 < length (duplicate_group_rows df)
      then ([NullPkPassed, DupPkError (length (duplicate_group_rows df))], SysExit 1)
      else (case getitem df ''description'' of
              Inl e \<Rightarrow> ([NullPkPassed, DupPkPassed], Raised e)
            | Inr series \<Rightarrow>
                (case max_len (map (\<lambda>v. length (str_of lib v)) series) of
                   None \<Rightarrow> ([NullPkPassed, DupPkPassed, DescPassed None], Proceed)
                 | Some m \<Rightarrow>
                     if db_desc_limit < m
                     then ([NullPkPassed, DupPkPassed, DescWarning m], Proceed)
                     else ([NullPkPassed, DupPkPassed, DescPassed (Some m)], Proceed))))"
  unfolding validate_def getitems_pk[OF assms] sum.case Let_def null_count dup_count
  by (rule refl)

lemma validate_no_pk:
  "\<not> set pk_cols \<subseteq> set (columns df) \<Longrightarrow> validate lib df = ([], Raised KeyError)"
  by (simp add: validate_def getitems_def)



lemma two_in_group:
  assumes "i < j" "j < length (rows df)"
    and "key_of pk_cols (rows df ! i) = key_of pk_cols (rows df ! j)"
  shows "2 \<le> length (duplicate_group_rows df)"
proof -
  let ?ks = "map (key_of pk_cols) (rows df)"
  let ?d = "duplicate_group_rows df"
  have si: "shares_key ?ks i" and sj: "shares_key ?ks j"
    using assms by (auto simp: shares_key_def list_ex_iff)
  have "{i, j} \<subseteq> set ?d"
    using assms si sj by (auto simp: duplicate_group_rows_def Let_def)
  then have "card {i, j} \<le> card (set ?d)" by (simp add: card_mono)
  also have "\<dots> \<le> length ?d" by (rule card_length)
  finally show ?thesis using assms(1) by simp
qed




text \<open>
  C3, as the code has it: in a frame with the key columns and no null key, two rows that
  share one key triple make the validation exit, and the number it reports is the number
  of all rows that share their key with another row, at least 2.
\<close>

theorem validate_duplicate_pk_count:
  assumes "set pk_cols \<subseteq> set (columns df)" and "null_pk_rows df = []"
    and "i < j" and "j < length (rows df)"
    and "key_of pk_cols (rows df ! i) = key_of pk_cols (rows df ! j)"
  shows "validate lib df =
           ([NullPkPassed, DupPkError (length (duplicate_group_rows df))], SysExit 1)
         \<and> 2 \<le> length (duplicate_group_rows df)"
proof -
  have two: "2 \<le> length (duplicate_group_rows df)"
    by (rule two_in_group[OF assms(3-5)])
  then have "duplicate_group_rows df \<noteq> []" by auto
  then show ?thesis using two assms(2) by (simp add: validate_pk[OF assms(1)])
qed

theorem validate_duplicate_pk_count_witness:
  "validate lib0 (pitches [pitch (IntV 1) 1 1 ''x'', pitch (IntV 1) 1 1 ''y''])
     = ([NullPkPassed, DupPkError 2], SysExit 1)"
  using validate_duplicate_pk_count
    [of "pitches [pitch (IntV 1) 1 1 ''x'', pitch (IntV 1) 1 1 ''y'']" 0 1 lib0]
  by (simp add: example_defs)

text \<open>
  C3 as stated fails when a null key is present too: the run exits at the first check and
  no duplicate count is reported.
\<close>

theorem validate_duplicate_pk_counterexample:
  "validate lib0
     (pitches [pitch (IntV 7) 3 2 ''ball'', pitch (IntV 7) 3 2 ''foul'', pitch Null 3 3 ''ball''])
     = ([NullPkError 1], SysExit 1)
   \<and> key_of pk_cols (pitch (IntV 7) 3 2 ''ball'') = key_of pk_cols (pitch (IntV 7) 3 2 ''foul'')"
  by (simp add: validate_def getitems_def isnull_any_def sum_mask_def example_defs)






section \<open>Cleaning\<close>


lemma those_map_None: "x \<in> set xs \<Longrightarrow> f x = None \<Longrightarrow> those (map f xs) = None"
  by (induction xs) (auto split: option.splits)












lemma to_datetime_unparseable:
  assumes "v \<in> set series" "v \<noteq> Null" "parse_datetime lib v = None"
  shows "to_datetime lib series = Inl ValueError"
proof -
  have "datetime1 lib v = None"
    using assms(2,3) by (cases v) (simp_all add: datetime1_def)
  then have "those (map (datetime1 lib) series) = None"
    using assms(1) by (rule those_map_None[rotated])
  then show ?thesis by (simp add: to_datetime_def)
qed

lemma convert_column_columns:
  "convert_column f df c = Inr df' \<Longrightarrow> columns df' = columns df"
  by (auto simp: convert_column_def setitem_def split: if_splits sum.splits)

lemma convert_columns_columns:
  "convert_columns f df cs = Inr df' \<Longrightarrow> columns df' = columns df"
proof (induction cs arbitrary: df)
  case Nil
  then show ?case by simp
next
  case (Cons a cs)
  then show ?case
    by (auto split: sum.splits dest: convert_column_columns)
qed

lemma normalize_columns:
  assumes "normalize lib df0 = Inr df"
  shows "columns df = map lower (columns df0)"
proof -
  from assms obtain d1 d2 where
    1: "convert_column (to_datetime lib) (lower_columns df0) ''game_date'' = Inr d1" and
    2: "coerce_numeric lib d1 = Inr d2" and
    3: "convert_columns (astype_Int64 lib) d2 int_cols = Inr df"
    by (auto simp: normalize_def split: sum.splits)
  have "columns df = columns d2" using 3 by (rule convert_columns_columns)
  also have "\<dots> = columns d1" using 2 unfolding coerce_numeric_def by (rule convert_columns_columns)
  also have "\<dots> = columns (lower_columns df0)" using 1 by (rule convert_column_columns)
  finally show ?thesis by (simp add: lower_columns_def)
qed

lemma normalize_bad_date:
  assumes "getitem (lower_columns df0) ''game_date'' = Inr series"
    and "v \<in> set series" and "v \<noteq> Null" and "parse_datetime lib v = None"
  shows "normalize lib df0 = Inl ValueError"
proof -
  have "''game_date'' \<in> set (columns (lower_columns df0))"
    using assms(1) by (auto simp: getitem_def split: if_splits)
  then have "convert_column (to_datetime lib) (lower_columns df0) ''game_date'' = Inl ValueError"
    using assms(1) to_datetime_unparseable[OF assms(2-4)] by (simp add: convert_column_def)
  then show ?thesis by (simp add: normalize_def)
qed

text \<open>
  C7: when the frame has a game\_date column (after the lower-casing of the names) and
  one of its values is not null and cannot be parsed as a date-time, the cleaning raises:
  no cleaned frame is produced, the run prints the error and exits with status 1, no
  engine is created and the table is left as it was.
\<close>

theorem unparseable_game_date_halts:
  assumes "getitem (lower_columns df0) ''game_date'' = Inr series"
    and "v \<in> set series" and "v \<noteq> Null" and "parse_datetime lib v = None"
  shows "normalize lib df0 = Inl ValueError \<and>
         main e lib (Readable df0) tbl =
           \<lparr>printed = [ProcessingError ValueError], exit_code = 1, table = tbl, engine_state = None\<rparr>"
  using normalize_bad_date[OF assms] by (simp add: main_def read_and_check_def)

lemma dated_column:
  "getitem (lower_columns dated) ''game_date'' = Inr [StrV ''2023-04-01'', StrV ''yesterday'']"
  by code_simp

theorem unparseable_game_date_halts_witness:
  "normalize lib0 dated = Inl ValueError \<and>
   main (env0 True) lib0 (Readable dated) [] =
     \<lparr>printed = [ProcessingError ValueError], exit_code = 1, table = [], engine_state = None\<rparr>"
  using unparseable_game_date_halts[OF dated_column, of "StrV ''yesterday''" lib0 "env0 True" "[]"]
  by (simp add: lib0_def)

section \<open>Column selection\<close>

lemma read_and_check_columns:
  assumes "read_and_check lib df0 = (out, Inr df)"
  shows "columns df = map lower (columns df0)"
proof (cases "normalize lib df0")
  case (Inl e)
  then show ?thesis using assms by (simp add: read_and_check_def)
next
  case (Inr d)
  then have "d = df"
    using assms by (auto simp: read_and_check_def split: prod.splits control.splits)
  then show ?thesis using normalize_columns[OF Inr] by simp
qed

text \<open>
  C9, as the code has it: \<open>clean_and_select_columns\<close> never fails. The frame it returns has exactly the
  requested columns that the source has, in the order of the request, with the values of
  the source; the other columns of the source are dropped without a message; the
  requested columns that the source lacks are logged in one warning, and only when there
  are some. The load script selects no columns of its own: the frame it hands to the
  store has the columns of the frame it read, in lower case.
\<close>

theorem select_columns_intersection:
  "\<exists>out. clean_and_select_columns df keep =
           (if set keep \<subseteq> set (columns df) then []
            else [filter (\<lambda>c. c \<notin> set (columns df)) keep], Inr out) \<and>
         columns out = filter (\<lambda>c. c \<in> set (columns df)) keep \<and>
         set (columns out) = set keep \<inter> set (columns df) \<and>
         rows out = map (\<lambda>r. map (\<lambda>c. (c, cell_at r c)) (columns out)) (rows df) \<and>
         (\<forall>lib printed_lines df1. read_and_check lib out = (printed_lines, Inr df1) \<longrightarrow>
            columns df1 = map lower (columns out))"
proof -
  have "(filter (\<lambda>c. c \<notin> set (columns df)) keep = []) = (set keep \<subseteq> set (columns df))"
    by (auto simp: filter_empty_conv)
  then show ?thesis
    by (auto simp: clean_and_select_columns_def getitems_def Let_def
        dest: read_and_check_columns)
qed

theorem select_columns_intersection_witness:
  "clean_and_select_columns source [''game_pk'', ''description'', ''zone''] =
     ([[''zone'']],
      Inr \<lparr>columns = [''game_pk'', ''description''],
           rows = [[(''game_pk'', IntV 7), (''description'', StrV ''ball'')]]\<rparr>)"
  using select_columns_intersection[of source "[''game_pk'', ''description'', ''zone'']"]
  by (simp add: clean_and_select_columns_def getitems_def source_def cell_at_def)

text \<open>
  C9 as stated fails for the run of the load script: a source without a description
  column passes the selection with a warning, and the load of the selected frame exits
  with status 1 and loads nothing.
\<close>

theorem missing_column_fatal_counterexample:
  "snd (clean_and_select_columns statcast_source COLUMNS_TO_KEEP) = Inr selected \<and>
   ''description'' \<in> set (concat (fst (clean_and_select_columns statcast_source COLUMNS_TO_KEEP))) \<and>
   main (env0 True) lib0 (Readable selected) [] =
     \<lparr>printed = [NullPkPassed, DupPkPassed, ProcessingError KeyError], exit_code = 1,
      table = [], engine_state = None\<rparr>"
  by code_simp

section \<open>The store\<close>

lemma insert_rows_append: "insert_rows acc t rs = Inr t' \<Longrightarrow> t' = t @ rs"
proof (induction rs arbitrary: t)
  case Nil
  then show ?case by simp
next
  case (Cons a rs)
  from Cons.prems have "insert_rows acc (t @ [a]) rs = Inr t'"
    by (auto split: if_splits)
  from Cons.IH[OF this] show ?case by simp
qed

lemma insert_rows_no_conflict:
  "insert_rows acc t rs = Inr t' \<Longrightarrow> r \<in> set rs \<Longrightarrow>
   key_of pk_cols r \<notin> set (map (key_of pk_cols) t)"
proof (induction rs arbitrary: t)
  case Nil
  then show ?case by simp
next
  case (Cons a rs)
  from Cons.prems(1) have a: "key_of pk_cols a \<notin> set (map (key_of pk_cols) t)"
    and rest: "insert_rows acc (t @ [a]) rs = Inr t'"
    by (auto split: if_splits)
  show ?case
  proof (cases "r = a")
    case True
    then show ?thesis using a by simp
  next
    case False
    then have "r \<in> set rs" using Cons.prems(2) by simp
    from Cons.IH[OF rest this] show ?thesis by simp
  qed
qed

lemma insert_rows_again:
  assumes "insert_rows acc t rs = Inr t'" and "rs \<noteq> []"
  shows "insert_rows acc t' rs = Inl IntegrityError"
proof -
  from assms(2) obtain r rs' where rs: "rs = r # rs'" by (cases rs) auto
  have t': "t' = t @ r # rs'" using insert_rows_append[OF assms(1)] rs by simp
  from assms(1) rs have "acc r" and "Null \<notin> set (key_of pk_cols r)"
    by (auto split: if_splits)
  then show ?thesis by (simp add: rs t')
qed

lemma to_sql_cases:
  "to_sql acc t df = (Inr (), t @ rows df) \<or> to_sql acc t df = (Inl IntegrityError, t)
   \<or> to_sql acc t df = (Inl DataError, t)"
proof (cases "insert_rows acc t (rows df)")
  case (Inl e)
  then show ?thesis by (cases e) (simp_all add: to_sql_def)
next
  case (Inr t')
  then show ?thesis using insert_rows_append[OF Inr] by (simp add: to_sql_def)
qed

lemma table_load: "table (load e g t df) = snd (to_sql (accepts e) t df)"
  by (auto simp: load_def Let_def split: prod.splits sum.splits db_error.splits)

lemma to_sql_twice:
  "snd (to_sql acc (snd (to_sql acc t df)) df) = snd (to_sql acc t df)"
proof (cases "insert_rows acc t (rows df)")
  case (Inl e)
  then show ?thesis by (simp add: to_sql_def)
next
  case (Inr t')
  show ?thesis
  proof (cases "rows df = []")
    case True
    then show ?thesis by (simp add: to_sql_def)
  next
    case False
    from insert_rows_again[OF Inr False] show ?thesis using Inr by (simp add: to_sql_def)
  qed
qed

lemma to_sql_conflict:
  assumes "r \<in> set (rows df)" and "key_of pk_cols r \<in> set (map (key_of pk_cols) t)"
  shows "fst (to_sql acc t df) \<noteq> Inr () \<and> snd (to_sql acc t df) = t"
proof (cases "insert_rows acc t (rows df)")
  case (Inl e)
  then show ?thesis by (simp add: to_sql_def)
next
  case (Inr t')
  from insert_rows_no_conflict[OF Inr assms(1)] assms(2) show ?thesis by simp
qed

text \<open>
  C1, as the code has it (\<open>to_sql\<close> with \<open>if_exists='append'\<close> and an IntegrityError
  handler): loading a frame twice leaves the table as loading it once does. When the
  first load inserted the rows of a non-empty frame, the second load inserts nothing,
  prints the integrity error and ends with status 0; it reports no counts. A row whose
  key is in the table already aborts its batch: the table is left as it was, so no row of
  the frame is inserted, and the success message is not printed.
\<close>

theorem append_load_twice:
  "table (load e g2 (table (load e g1 tbl df)) df) = table (load e g1 tbl df) \<and>
   (rows df \<noteq> [] \<and> printed (load e g1 tbl df) = [Loaded (length (rows df)), EngineClosed, Finished] \<longrightarrow>
      table (load e g1 tbl df) = tbl @ rows df \<and>
      printed (load e g2 (table (load e g1 tbl df)) df) =
        [IntegrityErrorReported, EngineClosed, Finished] \<and>
      exit_code (load e g2 (table (load e g1 tbl df)) df) = 0) \<and>
   (\<forall>r\<in>set (rows df). key_of pk_cols r \<in> set (map (key_of pk_cols) tbl) \<longrightarrow>
      table (load e g1 tbl df) = tbl \<and>
      printed (load e g1 tbl df) \<noteq> [Loaded (length (rows df)), EngineClosed, Finished])"
proof (intro conjI impI ballI)
  show "table (load e g2 (table (load e g1 tbl df)) df) = table (load e g1 tbl df)"
    by (simp only: table_load to_sql_twice)
next
  assume a: "rows df \<noteq> [] \<and> printed (load e g1 tbl df) = [Loaded (length (rows df)), EngineClosed, Finished]"
  then obtain t' where ins: "insert_rows (accepts e) tbl (rows df) = Inr t'"
    by (cases "insert_rows (accepts e) tbl (rows df)")
       (auto simp: load_def to_sql_def Let_def split: db_error.splits)
  have t': "t' = tbl @ rows df" by (rule insert_rows_append[OF ins])
  show "table (load e g1 tbl df) = tbl @ rows df"
    using ins t' by (simp add: load_def to_sql_def Let_def)
  from a insert_rows_again[OF ins] have "insert_rows (accepts e) (tbl @ rows df) (rows df) = Inl IntegrityError"
    using t' by simp
  then show "printed (load e g2 (table (load e g1 tbl df)) df) =
        [IntegrityErrorReported, EngineClosed, Finished]"
    and "exit_code (load e g2 (table (load e g1 tbl df)) df) = 0"
    using ins t' by (simp_all add: load_def to_sql_def Let_def)
next
  fix r assume r: "r \<in> set (rows df)" "key_of pk_cols r \<in> set (map (key_of pk_cols) tbl)"
  from to_sql_conflict[OF r, of "accepts e"]
  show "table (load e g1 tbl df) = tbl" by (simp add: table_load)
  from to_sql_conflict[OF r, of "accepts e"]
  show "printed (load e g1 tbl df) \<noteq> [Loaded (length (rows df)), EngineClosed, Finished]"
    by (cases "to_sql (accepts e) tbl df")
       (auto simp: load_def Let_def split: sum.splits db_error.splits)
qed

lemma first_load_example:
  "load (env0 True) create_engine [] two_pitches =
     \<lparr>printed = [Loaded 2, EngineClosed, Finished], exit_code = 0,
      table = rows two_pitches,
      engine_state = Some \<lparr>checked_out = 0, pooled = 0, disposed = True\<rparr>\<rparr>"
  by code_simp

theorem append_load_twice_witness:
  "table (load (env0 True) create_engine
            (table (load (env0 True) create_engine [] two_pitches)) two_pitches)
     = rows two_pitches \<and>
   printed (load (env0 True) create_engine
            (table (load (env0 True) create_engine [] two_pitches)) two_pitches)
     = [IntegrityErrorReported, EngineClosed, Finished]"
  using append_load_twice[of "env0 True" create_engine create_engine "[]" two_pitches]
    first_load_example
  by (simp add: two_pitches_def pitches_def)

text \<open>
  C1 as stated fails: the table holds pitch (1, 1, 1); loading a frame with that pitch and
  the new pitch (1, 1, 2) leaves the table as it was. The existing key aborted the batch,
  the new row was not inserted, and no counts are reported.
\<close>

theorem conflict_aborts_batch_counterexample:
  "load (env0 True) create_engine [pitch (IntV 1) 1 1 ''ball''] two_pitches =
     \<lparr>printed = [IntegrityErrorReported, EngineClosed, Finished], exit_code = 0,
      table = [pitch (IntV 1) 1 1 ''ball''],
      engine_state = Some \<lparr>checked_out = 0, pooled = 0, disposed = True\<rparr>\<rparr>"
  by code_simp

section \<open>The run\<close>






lemma validate_without_description:
  assumes "''description'' \<notin> set (columns df)"
  shows "snd (validate lib df) = SysExit 1 \<or> snd (validate lib df) = Raised KeyError"
proof (cases "set pk_cols \<subseteq> set (columns df)")
  case False
  then show ?thesis by (simp add: validate_no_pk)
next
  case True
  show ?thesis unfolding validate_pk[OF True] using assms by (simp add: getitem_def)
qed

lemma read_and_check_without_description:
  assumes "''description'' \<notin> set (map lower (columns df0))"
  shows "snd (read_and_check lib df0) = Inl 1"
proof (cases "normalize lib df0")
  case (Inl e)
  then show ?thesis by (simp add: read_and_check_def)
next
  case (Inr df)
  then have "''description'' \<notin> set (columns df)"
    using assms normalize_columns by metis
  from validate_without_description[OF this, of lib] show ?thesis
    using Inr by (cases "validate lib df") (auto simp: read_and_check_def)
qed

text \<open>
  C10: when the frame has no description column (after the lower-casing of the names),
  the run exits with status 1 before it creates an engine, and the table is left as it
  was; so also when both key checks pass.
\<close>

theorem missing_description_stops_before_write:
  assumes "''description'' \<notin> set (map lower (columns df0))"
  shows "exit_code (main e lib (Readable df0) tbl) = 1 \<and> table (main e lib (Readable df0) tbl) = tbl \<and>
         engine_state (main e lib (Readable df0) tbl) = None"
  using read_and_check_without_description[OF assms, of lib]
  by (cases "read_and_check lib df0") (simp add: main_def)

lemma keys_only_run:
  "main (env0 True) lib0 (Readable keys_only) [] =
     \<lparr>printed = [NullPkPassed, DupPkPassed, ProcessingError KeyError], exit_code = 1,
      table = [], engine_state = None\<rparr>"
  by code_simp

theorem missing_description_stops_before_write_witness:
  "exit_code (main (env0 True) lib0 (Readable keys_only) []) = 1 \<and>
   table (main (env0 True) lib0 (Readable keys_only) []) = [] \<and>
   engine_state (main (env0 True) lib0 (Readable keys_only) []) = None \<and>
   printed (main (env0 True) lib0 (Readable keys_only) [])
     = [NullPkPassed, DupPkPassed, ProcessingError KeyError]"
  using missing_description_stops_before_write[of keys_only "env0 True" lib0 "[]"] keys_only_run
  by simp

end
